theory Spec2Isabelle
  imports Complex_Main "HOL-Library.AList"
begin

section \<open>Python values\<close>

text \<open>
  A Python \<open>str\<close> is a sequence of Unicode code points; \<open>len\<close> counts code points and
  \<open>\s\<close>, \<open>str.strip\<close> and \<open>str.rfind\<close> work on them. A string is therefore modelled as
  the list of its code points. \<open>ustr\<close> writes an ASCII literal.
\<close>

type_synonym pystr = "nat list"

definition ustr :: "string \<Rightarrow> pystr" where
  "ustr s = map of_char s"

text \<open>
  The exceptions the modelled code can raise, by Python class. \<open>APIError\<close> stands for any
  failure raised by the Azure OpenAI client, and \<open>OtherException\<close> carries the name of any
  class not listed, which only a file reader can raise here.
\<close>

datatype py_error =
    ValueError | IndexError | KeyError | TypeError | AssertionError | RuntimeError
  | FileNotFoundError | EOFError | UnpicklingError | APIError | OtherException string

fun class_name :: "py_error \<Rightarrow> string" where
  "class_name ValueError = ''ValueError''"
| "class_name IndexError = ''IndexError''"
| "class_name KeyError = ''KeyError''"
| "class_name TypeError = ''TypeError''"
| "class_name AssertionError = ''AssertionError''"
| "class_name RuntimeError = ''RuntimeError''"
| "class_name FileNotFoundError = ''FileNotFoundError''"
| "class_name EOFError = ''EOFError''"
| "class_name UnpicklingError = ''UnpicklingError''"
| "class_name APIError = ''APIError''"
| "class_name (OtherException name) = name"

text \<open>
  Dictionaries keep insertion order, so they are association lists; \<open>d.update(other)\<close>
  overwrites a key in place and appends a new one. Keys are the ASCII identifiers the code
  writes (\<open>'text'\<close>, \<open>'char_start'\<close>, \<open>'page'\<close>, ...).
\<close>

datatype pyval = VInt int | VStr pystr

type_synonym pydict = "(string \<times> pyval) list"

definition dict_update :: "pydict \<Rightarrow> pydict \<Rightarrow> pydict" where
  "dict_update d other = fold (\<lambda>(k, v). AList.update k v) other d"

text \<open>
  Slice bounds as CPython adjusts them (\<open>PySlice_AdjustIndices\<close>, step 1): a negative
  bound counts from the end, and both are clamped to \<open>[0, len]\<close>.
\<close>

definition adjust_index :: "int \<Rightarrow> int \<Rightarrow> nat" where
  "adjust_index n i = nat (if i < 0 then max 0 (i + n) else min i n)"

definition py_slice :: "'a list \<Rightarrow> int \<Rightarrow> int \<Rightarrow> 'a list" where
  "py_slice xs start end =
     (let s = adjust_index (int (length xs)) start;
          e = adjust_index (int (length xs)) end
      in take (e - s) (drop s xs))"

text \<open>\<open>xs[i]\<close> on a list: a negative index counts from the end, out of range raises.\<close>

definition py_index :: "'a list \<Rightarrow> int \<Rightarrow> py_error + 'a" where
  "py_index xs i =
     (if 0 \<le> i \<and> i < int (length xs) then Inr (xs ! nat i)
      else if i < 0 \<and> - int (length xs) \<le> i then Inr (xs ! nat (int (length xs) + i))
      else Inl IndexError)"

text \<open>
  \<open>s.rfind(ch, start, end)\<close> for a one-character \<open>ch\<close>: the highest index of the string
  at which \<open>ch\<close> stands inside \<open>s[start:end]\<close>, or \<open>-1\<close>.
\<close>

fun last_index :: "'a list \<Rightarrow> 'a \<Rightarrow> nat option" where
  "last_index [] ch = None"
| "last_index (x # xs) ch =
     (case last_index xs ch of
        Some j \<Rightarrow> Some (Suc j)
      | None \<Rightarrow> if x = ch then Some 0 else None)"

definition py_rfind :: "pystr \<Rightarrow> nat \<Rightarrow> int \<Rightarrow> int \<Rightarrow> int" where
  "py_rfind s ch start end =
     (case last_index (py_slice s start end) ch of
        None \<Rightarrow> - 1
      | Some j \<Rightarrow> int (adjust_index (int (length s)) start + j))"

text \<open>
  Whitespace as \<open>str.isspace\<close> and the regular expression class \<open>\s\<close> (on \<open>str\<close> patterns)
  both decide it: the code points CPython lists in \<open>_PyUnicode_IsWhitespace\<close>.
\<close>

definition is_space :: "nat \<Rightarrow> bool" where
  "is_space c \<longleftrightarrow>
     (9 \<le> c \<and> c \<le> 13) \<or> (28 \<le> c \<and> c \<le> 32) \<or> c = 133 \<or> c = 160 \<or> c = 5760 \<or>
     (8192 \<le> c \<and> c \<le> 8202) \<or> c = 8232 \<or> c = 8233 \<or> c = 8239 \<or> c = 8287 \<or> c = 12288"

definition py_strip :: "pystr \<Rightarrow> pystr" where
  "py_strip s = rev (dropWhile is_space (rev (dropWhile is_space s)))"


section \<open>DocumentProcessor: text normalization\<close>

text \<open>
  \<open>re.sub(r'\s+', ' ', text)\<close>: scanning from the left, every maximal run of whitespace
  becomes one space (code point 32).
\<close>

function re_sub_whitespace :: "pystr \<Rightarrow> pystr" where
  "re_sub_whitespace [] = []"
| "re_sub_whitespace (c # cs) =
     (if is_space c then 32 # re_sub_whitespace (dropWhile is_space cs)
      else c # re_sub_whitespace cs)"
  by pat_completeness auto
termination
  by (relation "measure length") (auto simp: le_imp_less_Suc length_dropWhile_le)

text \<open>
  \<open>re.sub(r'\n{3,}', '\n\n', text)\<close>: a maximal run of three or more newlines (code
  point 10) becomes two newlines; shorter runs do not match.
\<close>

function re_sub_newlines :: "pystr \<Rightarrow> pystr" where
  "re_sub_newlines [] = []"
| "re_sub_newlines (c # cs) =
     (if c = 10 \<and> 2 \<le> length (takeWhile (\<lambda>x. x = 10) cs)
      then 10 # 10 # re_sub_newlines (dropWhile (\<lambda>x. x = 10) cs)
      else c # re_sub_newlines cs)"
  by pat_completeness auto
termination
  by (relation "measure length") (auto simp: le_imp_less_Suc length_dropWhile_le)

text \<open>\<open>text.replace('\x00', '')\<close>\<close>

definition remove_nul :: "pystr \<Rightarrow> pystr" where
  "remove_nul s = filter (\<lambda>c. c \<noteq> 0) s"

text \<open>\<open>DocumentProcessor.clean_text\<close>: the four steps in the order of the source.\<close>

definition clean_text :: "pystr \<Rightarrow> pystr" where
  "clean_text t = py_strip (remove_nul (re_sub_newlines (re_sub_whitespace t)))"


text \<open>
  A text in which every whitespace character is a single space with no whitespace after
  it: what the whitespace collapse produces and leaves as it is.
\<close>

fun collapsed :: "pystr \<Rightarrow> bool" where
  "collapsed [] = True"
| "collapsed [c] = (is_space c \<longrightarrow> c = 32)"
| "collapsed (c # d # cs) =
     ((is_space c \<longrightarrow> c = 32 \<and> \<not> is_space d) \<and> collapsed (d # cs))"


section \<open>DocumentProcessor: chunking\<close>

text \<open>
  A source segment is one dictionary of the \<open>metadata\<close> list that the extractors build.
  Its offsets \<open>char_start\<close> and \<open>char_end\<close> are integers where present (\<open>None\<close> stands for
  an absent key); \<open>seg_items\<close> holds the other entries in their order.
\<close>

record segment =
  seg_char_start :: "int option"
  seg_char_end :: "int option"
  seg_items :: pydict

text \<open>
  The end of the window that starts at \<open>start\<close>: \<open>start + chunk_size\<close>, moved back to just
  after the last \<open>.\<close>, \<open>!\<close> or \<open>?\<close> (code points 46, 33, 63) of the window when the window
  ends before the text does and that character lies beyond the middle of the window.
\<close>

definition window_end :: "int \<Rightarrow> pystr \<Rightarrow> int \<Rightarrow> int" where
  "window_end chunk_size txt start =
     (let end = start + chunk_size in
      if end < int (length txt) then
        (let last_period = py_rfind txt 46 start end;
             last_exclamation = py_rfind txt 33 start end;
             last_question = py_rfind txt 63 start end;
             break_point = max (max last_period last_exclamation) last_question
         in if break_point > start + chunk_size div 2 then break_point + 1 else end)
      else end)"

text \<open>The dictionary a chunk starts as, in the order the source writes its keys.\<close>

definition chunk_data :: "pystr \<Rightarrow> int \<Rightarrow> int \<Rightarrow> int \<Rightarrow> pydict" where
  "chunk_data chunk_text chunk_id start end =
     [(''text'', VStr chunk_text),
      (''chunk_id'', VInt chunk_id),
      (''char_start'', VInt start),
      (''char_end'', VInt end),
      (''chunk_size'', VInt (int (length chunk_text)))]"

text \<open>
  The loop over \<open>metadata\<close>: the first segment that has both offsets and contains \<open>start\<close>
  gives the chunk its entries other than the offsets, and the search stops there.
\<close>

fun inherit_segment :: "segment list \<Rightarrow> int \<Rightarrow> pydict \<Rightarrow> pydict" where
  "inherit_segment [] start cd = cd"
| "inherit_segment (meta # rest) start cd =
     (case (seg_char_start meta, seg_char_end meta) of
        (Some cs, Some ce) \<Rightarrow>
          if start \<ge> cs \<and> start < ce
          then dict_update cd
                 (filter (\<lambda>(k, v). k \<notin> set [''char_start'', ''char_end'']) (seg_items meta))
          else inherit_segment rest start cd
      | _ \<Rightarrow> inherit_segment rest start cd)"

text \<open>\<open>if metadata:\<close> is false for \<open>None\<close> and for the empty list.\<close>

definition add_source_metadata :: "segment list option \<Rightarrow> int \<Rightarrow> pydict \<Rightarrow> pydict" where
  "add_source_metadata metadata start cd =
     (case metadata of
        None \<Rightarrow> cd
      | Some ms \<Rightarrow> if ms = [] then cd else inherit_segment ms start cd)"

text \<open>
  The part of the loop body that extracts the chunk: the pair is \<open>(chunk_id, chunks)\<close>,
  unchanged when the stripped slice is empty.
\<close>

definition extract_chunk ::
  "pystr \<Rightarrow> segment list option \<Rightarrow> int \<Rightarrow> int \<Rightarrow> int \<times> pydict list \<Rightarrow> int \<times> pydict list" where
  "extract_chunk txt metadata start end acc =
     (let chunk_text = py_strip (py_slice txt start end) in
      if chunk_text \<noteq> []
      then (fst acc + 1,
            snd acc @ [add_source_metadata metadata start
                         (chunk_data chunk_text (fst acc) start end)])
      else acc)"

text \<open>
  The \<open>while\<close> loop of \<open>create_chunks\<close>. The source loop has no bound, so the model is a
  partial function: \<open>None\<close> means that the loop never leaves.
\<close>

partial_function (option) chunk_loop ::
  "int \<Rightarrow> int \<Rightarrow> pystr \<Rightarrow> segment list option \<Rightarrow> int \<Rightarrow> int \<times> pydict list
     \<Rightarrow> pydict list option" where
  "chunk_loop chunk_size chunk_overlap txt metadata start acc =
     (if start < int (length txt) then
        (let end = window_end chunk_size txt start;
             acc' = extract_chunk txt metadata start end acc;
             start' = end - chunk_overlap
         in if start' \<le> 0 \<or> end \<ge> int (length txt)
            then Some (snd acc')
            else chunk_loop chunk_size chunk_overlap txt metadata start' acc')
      else Some (snd acc))"

declare chunk_loop.simps [code]

text \<open>
  \<open>DocumentProcessor.create_chunks\<close>, with the two fields of the processor as the first
  arguments: the text is normalized, then the loop starts at offset 0 with \<open>chunk_id = 0\<close>
  and no chunks.
\<close>

definition create_chunks ::
  "int \<Rightarrow> int \<Rightarrow> pystr \<Rightarrow> segment list option \<Rightarrow> pydict list option" where
  "create_chunks chunk_size chunk_overlap raw metadata =
     chunk_loop chunk_size chunk_overlap (clean_text raw) metadata 0 (0, [])"

text \<open>
  The range \<open>[char_start, char_end)\<close> a chunk records, and whether a set of chunks covers
  a position or all of \<open>[0, n)\<close>.
\<close>

definition chunk_range :: "pydict \<Rightarrow> (int \<times> int) option" where
  "chunk_range c =
     (case (map_of c ''char_start'', map_of c ''char_end'') of
        (Some (VInt a), Some (VInt b)) \<Rightarrow> Some (a, b)
      | _ \<Rightarrow> None)"

definition in_range :: "pydict \<Rightarrow> int \<Rightarrow> bool" where
  "in_range c i = (case chunk_range c of Some (a, b) \<Rightarrow> a \<le> i \<and> i < b | None \<Rightarrow> False)"

definition covered :: "pydict list \<Rightarrow> int \<Rightarrow> bool" where
  "covered chunks i = list_ex (\<lambda>c. in_range c i) chunks"

definition covers :: "pydict list \<Rightarrow> nat \<Rightarrow> bool" where
  "covers chunks n = list_all (\<lambda>i. covered chunks (int i)) [0 ..< n]"

text \<open>Every position of \<open>t\<close> that holds a character other than whitespace is covered.\<close>

definition covers_text :: "pystr \<Rightarrow> pydict list \<Rightarrow> bool" where
  "covers_text t chunks =
     list_all (\<lambda>i. is_space (t ! i) \<or> covered chunks (int i)) [0 ..< length t]"

text \<open>The keys that a chunk can take over from the segments.\<close>

definition inherited_keys :: "segment list option \<Rightarrow> string set" where
  "inherited_keys metadata =
     (case metadata of
        None \<Rightarrow> {}
      | Some ms \<Rightarrow> \<Union> (set (map (\<lambda>m. fst ` set (seg_items m)) ms)))"


text \<open>
  The invariant of the loop: the chunks cover every position below \<open>b\<close> that is needed,
  where \<open>need\<close> tells which of the \<open>n\<close> positions of the text are.
\<close>

definition seen :: "(nat \<Rightarrow> bool) \<Rightarrow> nat \<Rightarrow> pydict list \<Rightarrow> int \<Rightarrow> bool" where
  "seen need n chunks b =
     list_all (\<lambda>i. b \<le> int i \<or> covered chunks (int i) \<or> \<not> need i) [0 ..< n]"

text \<open>A text with one full stop at offset 9, on which the loop stalls.\<close>

definition stuck_text :: pystr where
  "stuck_text = ustr ''aaaaaaaaa.aaaaaaaa''"


section \<open>RAGSystem\<close>

subsection \<open>Arrays, the FAISS index and the Azure OpenAI client\<close>

text \<open>
  An embedding vector of the model is a row of the \<open>float32\<close> array that
  \<open>np.array(embeddings, dtype='float32')\<close> makes of the numbers the backend sent, so its
  components stand for \<open>float32\<close> numbers. Of a numpy array the code reads the shape and the
  rows: the array of the empty list has shape \<open>(0,)\<close>, that of \<open>m\<close> vectors of one length \<open>d\<close>
  has shape \<open>(m, d)\<close>, and vectors of different lengths raise \<open>ValueError\<close>.
\<close>

type_synonym vec = "real list"

record ndarray =
  nd_shape :: "nat list"
  nd_rows :: "vec list"

definition np_array :: "vec list \<Rightarrow> py_error + ndarray" where
  "np_array embeddings =
     (case embeddings of
        [] \<Rightarrow> Inr \<lparr>nd_shape = [0], nd_rows = []\<rparr>
      | v # vs \<Rightarrow>
          if list_all (\<lambda>w. length w = length v) vs
          then Inr \<lparr>nd_shape = [length embeddings, length v], nd_rows = embeddings\<rparr>
          else Inl ValueError)"

text \<open>
  \<open>faiss.IndexFlatL2\<close>: the dimension \<open>d\<close> and the stored vectors in insertion order.
  \<open>index.add(x)\<close> unpacks \<open>n, d = x.shape\<close> and asserts \<open>d == self.d\<close>.
\<close>

record faiss_index =
  faiss_d :: nat
  faiss_vectors :: "vec list"

definition IndexFlatL2 :: "nat \<Rightarrow> faiss_index" where
  "IndexFlatL2 dimension = \<lparr>faiss_d = dimension, faiss_vectors = []\<rparr>"

definition index_add :: "faiss_index \<Rightarrow> ndarray \<Rightarrow> py_error + faiss_index" where
  "index_add idx x =
     (case nd_shape x of
        [n, d] \<Rightarrow>
          if d = faiss_d idx
          then Inr (idx\<lparr>faiss_vectors := faiss_vectors idx @ nd_rows x\<rparr>)
          else Inl AssertionError
      | _ \<Rightarrow> Inl ValueError)"

text \<open>
  \<open>index.search(x, k)\<close> returns, for every query row, exactly \<open>k\<close> labels and \<open>k\<close> squared
  Euclidean distances. Every place starts as the label \<open>-1\<close> with the largest \<open>float32\<close> as
  distance, and a stored vector takes a place only with a distance below that bound: the
  result lists the stored vectors nearest first (equal distances in insertion order), and
  the places that no vector took keep the label \<open>-1\<close>. It asserts \<open>d == self.d\<close> and \<open>k > 0\<close>.

  The distances of the model are the exact sums of squares. faiss computes them in
  \<open>float32\<close>, so the two agree where the components, their differences, the squares and
  the partial sums are all \<open>float32\<close> numbers, as they are for the vectors used below.
\<close>

definition l2sqr :: "vec \<Rightarrow> vec \<Rightarrow> real" where
  "l2sqr x y = sum_list (map (\<lambda>(a, b). (a - b) * (a - b)) (zip x y))"

definition flt_max :: real where
  "flt_max = 340282346638528859811704183484516925440"

definition knn :: "faiss_index \<Rightarrow> vec \<Rightarrow> nat \<Rightarrow> (int \<times> real) list" where
  "knn idx q k =
     (let labelled = zip (map int [0 ..< length (faiss_vectors idx)])
                         (map (l2sqr q) (faiss_vectors idx));
          reported = filter (\<lambda>(label, distance). distance < flt_max) labelled;
          found = take k (sort_key snd reported)
      in found @ replicate (k - length found) (- 1, flt_max))"

definition index_search ::
  "faiss_index \<Rightarrow> ndarray \<Rightarrow> int \<Rightarrow> py_error + (real list list \<times> int list list)" where
  "index_search idx x k =
     (case nd_shape x of
        [n, d] \<Rightarrow>
          if d \<noteq> faiss_d idx then Inl AssertionError
          else if k \<le> 0 then Inl AssertionError
          else Inr (map (\<lambda>q. map snd (knn idx q (nat k))) (nd_rows x),
                    map (\<lambda>q. map fst (knn idx q (nat k))) (nd_rows x))
      | _ \<Rightarrow> Inl ValueError)"

text \<open>
  The two endpoints of the client. A request is what the code passes; the backend answers
  an embeddings request with the vectors of \<open>response.data\<close> and a chat request with
  \<open>response.choices[0].message.content\<close>, or fails.
\<close>

record embeddings_request =
  er_input :: "pystr list"
  er_model :: pystr

record chat_message =
  role :: pystr
  content :: pystr

record chat_request =
  cr_model :: pystr
  cr_messages :: "chat_message list"
  cr_temperature :: real
  cr_max_tokens :: int

record backend =
  embeddings_create :: "embeddings_request \<Rightarrow> py_error + vec list"
  chat_completions_create :: "chat_request \<Rightarrow> py_error + pystr"

text \<open>
  The fields of a \<open>RAGSystem\<close> object, and with them the requests its client has sent so
  far, in order.
\<close>

record rag_system =
  deployment_name :: pystr
  embedding_model :: pystr
  self_index :: "faiss_index option"
  self_chunks :: "pystr list"
  self_metadata :: "pydict list"
  embedding_calls :: "embeddings_request list"
  chat_calls :: "chat_request list"

text \<open>\<open>RAGSystem.__init__\<close>: no index, no chunks, no metadata.\<close>

definition rag_init :: "pystr \<Rightarrow> pystr \<Rightarrow> rag_system" where
  "rag_init azure_deployment_name model =
     \<lparr>deployment_name = azure_deployment_name, embedding_model = model,
      self_index = None, self_chunks = [], self_metadata = [],
      embedding_calls = [], chat_calls = []\<rparr>"

subsection \<open>Embeddings and the index\<close>

text \<open>The slices \<open>texts[i:i + 100]\<close> for \<open>i\<close> in \<open>range(0, len(texts), 100)\<close>.\<close>

function batches :: "'a list \<Rightarrow> 'a list list" where
  "batches texts = (if texts = [] then [] else take 100 texts # batches (drop 100 texts))"
  by pat_completeness auto
termination
  by (relation "measure length") auto

declare batches.simps [simp del]

text \<open>
  The loop of \<open>create_embeddings\<close>: one request per batch; a failing request ends the call,
  and the requests sent so far stay sent.
\<close>

fun embed_batches ::
  "backend \<Rightarrow> pystr list list \<Rightarrow> vec list \<Rightarrow> rag_system
     \<Rightarrow> (py_error + vec list) \<times> rag_system" where
  "embed_batches be [] embeddings st = (Inr embeddings, st)"
| "embed_batches be (batch # rest) embeddings st =
     (case embeddings_create be \<lparr>er_input = batch, er_model = embedding_model st\<rparr> of
        Inl e \<Rightarrow>
          (Inl e, st\<lparr>embedding_calls := embedding_calls st
                        @ [\<lparr>er_input = batch, er_model = embedding_model st\<rparr>]\<rparr>)
      | Inr batch_embeddings \<Rightarrow>
          embed_batches be rest (embeddings @ batch_embeddings)
            (st\<lparr>embedding_calls := embedding_calls st
                    @ [\<lparr>er_input = batch, er_model = embedding_model st\<rparr>]\<rparr>))"

definition create_embeddings ::
  "backend \<Rightarrow> pystr list \<Rightarrow> rag_system \<Rightarrow> (py_error + ndarray) \<times> rag_system" where
  "create_embeddings be texts st =
     (case embed_batches be (batches texts) [] st of
        (Inl e, st') \<Rightarrow> (Inl e, st')
      | (Inr embeddings, st') \<Rightarrow> (np_array embeddings, st'))"

text \<open>\<open>[{"index": i} for i in range(len(chunks))]\<close>\<close>

definition default_metadata :: "pystr list \<Rightarrow> pydict list" where
  "default_metadata cs = map (\<lambda>i. [(''index'', VInt (int i))]) [0 ..< length cs]"

text \<open>
  \<open>RAGSystem.create_index\<close>. The two fields are assigned first; \<open>embeddings.shape[1]\<close>
  raises \<open>IndexError\<close> on a shape with one entry.
\<close>

definition create_index ::
  "backend \<Rightarrow> pystr list \<Rightarrow> pydict list option \<Rightarrow> rag_system
     \<Rightarrow> (py_error + faiss_index) \<times> rag_system" where
  "create_index be cs md st =
     (case create_embeddings be cs
             (st\<lparr>self_chunks := cs,
                 self_metadata :=
                   (case md of
                      None \<Rightarrow> default_metadata cs
                    | Some m \<Rightarrow> if m \<noteq> [] then m else default_metadata cs)\<rparr>) of
        (Inl e, st') \<Rightarrow> (Inl e, st')
      | (Inr embeddings, st') \<Rightarrow>
          (case nd_shape embeddings of
             n # dimension # rest \<Rightarrow>
               (case index_add (IndexFlatL2 dimension) embeddings of
                  Inl e \<Rightarrow> (Inl e, st'\<lparr>self_index := Some (IndexFlatL2 dimension)\<rparr>)
                | Inr idx \<Rightarrow> (Inr idx, st'\<lparr>self_index := Some idx\<rparr>))
           | _ \<Rightarrow> (Inl IndexError, st')))"

subsection \<open>Loading\<close>

text \<open>
  The files under a path. A stored file is what the two readers make of its bytes:
  \<open>faiss.read_index\<close> gives an index or raises \<open>RuntimeError\<close>, as it does on a missing file;
  \<open>open\<close> and \<open>pickle.load\<close> give the pickled object or raise the exception this file
  causes (\<open>EOFError\<close> when it is empty, \<open>UnpicklingError\<close> or another class when it is
  damaged), and \<open>open\<close> raises \<open>FileNotFoundError\<close> on a missing file. The pickled object is a dictionary, whose entries
  \<open>'chunks'\<close> and \<open>'metadata'\<close> may be missing (\<open>KeyError\<close>), or an object that a string does
  not subscript, such as a list (\<open>TypeError\<close>).
\<close>

record side_table =
  pickled_chunks :: "pystr list option"
  pickled_metadata :: "pydict list option"

datatype pickled = PickledDict side_table | PickledOther

record stored_file =
  read_by_faiss :: "faiss_index option"
  read_by_pickle :: "py_error + pickled"

type_synonym filesystem = "pystr \<Rightarrow> stored_file option"

definition faiss_read_index :: "filesystem \<Rightarrow> pystr \<Rightarrow> py_error + faiss_index" where
  "faiss_read_index fs path =
     (case fs path of
        None \<Rightarrow> Inl RuntimeError
      | Some f \<Rightarrow> (case read_by_faiss f of None \<Rightarrow> Inl RuntimeError | Some idx \<Rightarrow> Inr idx))"

definition pickle_load :: "filesystem \<Rightarrow> pystr \<Rightarrow> py_error + pickled" where
  "pickle_load fs path =
     (case fs path of
        None \<Rightarrow> Inl FileNotFoundError
      | Some f \<Rightarrow> read_by_pickle f)"

text \<open>\<open>data['chunks']\<close> and \<open>data['metadata']\<close>\<close>

definition data_chunks :: "pickled \<Rightarrow> py_error + pystr list" where
  "data_chunks data =
     (case data of
        PickledOther \<Rightarrow> Inl TypeError
      | PickledDict d \<Rightarrow> (case pickled_chunks d of None \<Rightarrow> Inl KeyError | Some cs \<Rightarrow> Inr cs))"

definition data_metadata :: "pickled \<Rightarrow> py_error + pydict list" where
  "data_metadata data =
     (case data of
        PickledOther \<Rightarrow> Inl TypeError
      | PickledDict d \<Rightarrow> (case pickled_metadata d of None \<Rightarrow> Inl KeyError | Some ms \<Rightarrow> Inr ms))"

text \<open>
  \<open>RAGSystem.load_index\<close>: each field is assigned as soon as its value is read, so a
  failure leaves the fields assigned before it. Every exception is the reader's own.
\<close>

definition load_index ::
  "filesystem \<Rightarrow> pystr \<Rightarrow> rag_system \<Rightarrow> (py_error + unit) \<times> rag_system" where
  "load_index fs index_path st =
     (case faiss_read_index fs (index_path @ ustr ''.faiss'') of
        Inl e \<Rightarrow> (Inl e, st)
      | Inr idx \<Rightarrow>
          (case pickle_load fs (index_path @ ustr ''.pkl'') of
             Inl e \<Rightarrow> (Inl e, st\<lparr>self_index := Some idx\<rparr>)
           | Inr data \<Rightarrow>
               (case data_chunks data of
                  Inl e \<Rightarrow> (Inl e, st\<lparr>self_index := Some idx\<rparr>)
                | Inr cs \<Rightarrow>
                    (case data_metadata data of
                       Inl e \<Rightarrow> (Inl e, st\<lparr>self_index := Some idx, self_chunks := cs\<rparr>)
                     | Inr ms \<Rightarrow>
                         (Inr (), st\<lparr>self_index := Some idx, self_chunks := cs,
                                     self_metadata := ms\<rparr>)))))"

text \<open>
  Both artifacts under a base path as they are read, when both can be read: the index,
  and a dictionary with both entries.
\<close>

definition artifacts ::
  "filesystem \<Rightarrow> pystr \<Rightarrow> (faiss_index \<times> pystr list \<times> pydict list) option" where
  "artifacts fs index_path =
     (case (faiss_read_index fs (index_path @ ustr ''.faiss''),
            pickle_load fs (index_path @ ustr ''.pkl'')) of
        (Inr idx, Inr data) \<Rightarrow>
          (case (data_chunks data, data_metadata data) of
             (Inr cs, Inr ms) \<Rightarrow> Some (idx, cs, ms)
           | _ \<Rightarrow> None)
      | _ \<Rightarrow> None)"

subsection \<open>Search\<close>

text \<open>
  The loop over \<open>zip(indices[0], distances[0])\<close>: a label below \<open>len(self.chunks)\<close> is
  looked up in both lists with Python's indexing.
\<close>

fun collect_results ::
  "pystr list \<Rightarrow> pydict list \<Rightarrow> (int \<times> real) list \<Rightarrow> (pystr \<times> pydict \<times> real) list
     \<Rightarrow> py_error + (pystr \<times> pydict \<times> real) list" where
  "collect_results cs ms [] results = Inr results"
| "collect_results cs ms ((idx, distance) # rest) results =
     (if idx < int (length cs) then
        (case py_index cs idx of
           Inl e \<Rightarrow> Inl e
         | Inr c \<Rightarrow>
             (case py_index ms idx of
                Inl e \<Rightarrow> Inl e
              | Inr m \<Rightarrow> collect_results cs ms rest (results @ [(c, m, distance)])))
      else collect_results cs ms rest results)"

text \<open>\<open>RAGSystem.search\<close>\<close>

definition search ::
  "backend \<Rightarrow> pystr \<Rightarrow> int \<Rightarrow> rag_system
     \<Rightarrow> (py_error + (pystr \<times> pydict \<times> real) list) \<times> rag_system" where
  "search be query k st =
     (case self_index st of
        None \<Rightarrow> (Inl ValueError, st)
      | Some idx \<Rightarrow>
          (case create_embeddings be [query] st of
             (Inl e, st') \<Rightarrow> (Inl e, st')
           | (Inr query_embedding, st') \<Rightarrow>
               (case index_search idx query_embedding k of
                  Inl e \<Rightarrow> (Inl e, st')
                | Inr (distances, indices) \<Rightarrow>
                    (case (indices, distances) of
                       (i0 # _, d0 # _) \<Rightarrow>
                         (collect_results (self_chunks st') (self_metadata st') (zip i0 d0) [],
                          st')
                     | _ \<Rightarrow> (Inl IndexError, st')))))"

subsection \<open>Quiz and flashcard generation\<close>

text \<open>\<open>sep.join(xs)\<close>, and \<open>str(n)\<close> for an integer as an f-string writes it.\<close>

fun py_join :: "pystr \<Rightarrow> pystr list \<Rightarrow> pystr" where
  "py_join sep [] = []"
| "py_join sep [x] = x"
| "py_join sep (x # y # ys) = x @ sep @ py_join sep (y # ys)"

function str_nat :: "nat \<Rightarrow> pystr" where
  "str_nat n = (if n < 10 then [48 + n] else str_nat (n div 10) @ [48 + n mod 10])"
  by pat_completeness auto
termination
  by (relation "measure id") auto

declare str_nat.simps [simp del]

definition py_str_int :: "int \<Rightarrow> pystr" where
  "py_str_int i = (if i < 0 then 45 # str_nat (nat (- i)) else str_nat (nat i))"

text \<open>
  \<open>np.random.choice(a, n, replace=False)\<close> for an integer \<open>a\<close>: it raises \<open>ValueError\<close> when
  \<open>a \<le> 0\<close> unless no sample is taken, when \<open>n > a\<close> and when \<open>n < 0\<close>; otherwise the
  result is the first \<open>n\<close> entries of a random permutation of \<open>range(a)\<close>. The generator
  is the argument \<open>permutation\<close>, which gives the permutation drawn for a population size.
\<close>

definition np_random_choice :: "(nat \<Rightarrow> int list) \<Rightarrow> int \<Rightarrow> int \<Rightarrow> py_error + int list" where
  "np_random_choice permutation a n =
     (if a \<le> 0 \<and> n \<noteq> 0 then Inl ValueError
      else if n > a then Inl ValueError
      else if n < 0 then Inl ValueError
      else Inr (take (nat n) (permutation (nat a))))"

text \<open>\<open>[self.chunks[i] for i in sample_indices]\<close>\<close>

fun lookup_all :: "'a list \<Rightarrow> int list \<Rightarrow> py_error + 'a list" where
  "lookup_all xs [] = Inr []"
| "lookup_all xs (i # rest) =
     (case py_index xs i of
        Inl e \<Rightarrow> Inl e
      | Inr x \<Rightarrow> (case lookup_all xs rest of Inl e \<Rightarrow> Inl e | Inr ys \<Rightarrow> Inr (x # ys)))"

text \<open>
  The first lines of \<open>generate_quiz_questions\<close> and of \<open>generate_flashcards\<close>, which are the
  same: up to ten chunks are drawn and joined by a blank line.
\<close>

definition sample_context :: "(nat \<Rightarrow> int list) \<Rightarrow> rag_system \<Rightarrow> py_error + pystr" where
  "sample_context permutation st =
     (case np_random_choice permutation (int (length (self_chunks st)))
             (min 10 (int (length (self_chunks st)))) of
        Inl e \<Rightarrow> Inl e
      | Inr sample_indices \<Rightarrow>
          (case lookup_all (self_chunks st) sample_indices of
             Inl e \<Rightarrow> Inl e
           | Inr sample_chunks \<Rightarrow> Inr (py_join (ustr ''\<newline>\<newline>'') sample_chunks)))"

text \<open>\<open>f" focusing on {topic}" if topic else ""\<close>: \<open>None\<close> and the empty string are false.\<close>

definition topic_text :: "pystr option \<Rightarrow> pystr" where
  "topic_text topic =
     (case topic of
        None \<Rightarrow> []
      | Some t \<Rightarrow> if t \<noteq> [] then ustr '' focusing on '' @ t else [])"

definition quiz_prompt :: "int \<Rightarrow> pystr \<Rightarrow> pystr option \<Rightarrow> pystr \<Rightarrow> pystr" where
  "quiz_prompt num_questions difficulty topic context =
     ustr ''Based on the following content, generate '' @ py_str_int num_questions
     @ ustr '' multiple-choice questions at a '' @ difficulty
     @ ustr '' difficulty level'' @ topic_text topic
     @ ustr ''.\<newline>\<newline>Content:\<newline>'' @ context
     @ ustr ''\<newline>\<newline>For each question, provide:\<newline>1. The question text\<newline>2. Four answer options (A, B, C, D)\<newline>3. The correct answer (letter)\<newline>4. A brief explanation of why it's correct\<newline>\<newline>Format your response as a JSON array of objects with keys: question, option_a, option_b, option_c, option_d, correct_answer, explanation''"

definition quiz_request :: "pystr \<Rightarrow> pystr \<Rightarrow> chat_request" where
  "quiz_request model prompt =
     \<lparr>cr_model = model,
      cr_messages =
        [\<lparr>role = ustr ''system'',
          content = ustr ''You are an educational quiz generator. Create clear, accurate questions.''\<rparr>,
         \<lparr>role = ustr ''user'', content = prompt\<rparr>],
      cr_temperature = 8 / 10,
      cr_max_tokens = 2000\<rparr>"

definition flashcard_prompt :: "int \<Rightarrow> pystr option \<Rightarrow> pystr \<Rightarrow> pystr" where
  "flashcard_prompt num_cards topic context =
     ustr ''Based on the following content, generate '' @ py_str_int num_cards
     @ ustr '' flashcards'' @ topic_text topic
     @ ustr ''.\<newline>\<newline>Content:\<newline>'' @ context
     @ ustr ''\<newline>\<newline>For each flashcard, provide:\<newline>- Front: A question, term, or concept\<newline>- Back: The answer, definition, or explanation\<newline>\<newline>Format your response as a JSON array of objects with keys: front, back''"

definition flashcard_request :: "pystr \<Rightarrow> pystr \<Rightarrow> chat_request" where
  "flashcard_request model prompt =
     \<lparr>cr_model = model,
      cr_messages =
        [\<lparr>role = ustr ''system'',
          content = ustr ''You are an educational flashcard generator. Create clear, concise cards.''\<rparr>,
         \<lparr>role = ustr ''user'', content = prompt\<rparr>],
      cr_temperature = 7 / 10,
      cr_max_tokens = 2000\<rparr>"

text \<open>
  \<open>self.client.chat.completions.create(...)\<close> followed by
  \<open>response.choices[0].message.content\<close>: the request is sent, and the content of the
  answer, a string, is the value.
\<close>

definition chat_completion ::
  "backend \<Rightarrow> chat_request \<Rightarrow> rag_system \<Rightarrow> (py_error + pystr) \<times> rag_system" where
  "chat_completion be req st =
     (chat_completions_create be req, st\<lparr>chat_calls := chat_calls st @ [req]\<rparr>)"

text \<open>
  \<open>RAGSystem.generate_quiz_questions\<close> and \<open>RAGSystem.generate_flashcards\<close>: both return the
  content of the answer as it came.
\<close>

definition generate_quiz_questions ::
  "backend \<Rightarrow> (nat \<Rightarrow> int list) \<Rightarrow> int \<Rightarrow> pystr \<Rightarrow> pystr option \<Rightarrow> rag_system
     \<Rightarrow> (py_error + pystr) \<times> rag_system" where
  "generate_quiz_questions be permutation num_questions difficulty topic st =
     (case sample_context permutation st of
        Inl e \<Rightarrow> (Inl e, st)
      | Inr context \<Rightarrow>
          chat_completion be
            (quiz_request (deployment_name st)
               (quiz_prompt num_questions difficulty topic context)) st)"

definition generate_flashcards ::
  "backend \<Rightarrow> (nat \<Rightarrow> int list) \<Rightarrow> int \<Rightarrow> pystr option \<Rightarrow> rag_system
     \<Rightarrow> (py_error + pystr) \<times> rag_system" where
  "generate_flashcards be permutation num_cards topic st =
     (case sample_context permutation st of
        Inl e \<Rightarrow> (Inl e, st)
      | Inr context \<Rightarrow>
          chat_completion be
            (flashcard_request (deployment_name st)
               (flashcard_prompt num_cards topic context)) st)"

subsection \<open>Concrete backends, files and states\<close>

text \<open>
  A backend that embeds every text as the vector \<open>[0]\<close> and answers every chat request
  with \<open>answer\<close>.
\<close>

definition constant_backend :: "pystr \<Rightarrow> backend" where
  "constant_backend answer =
     \<lparr>embeddings_create = (\<lambda>req. Inr (map (\<lambda>t. [0]) (er_input req))),
      chat_completions_create = (\<lambda>req. Inr answer)\<rparr>"

text \<open>A system whose index was built from the one chunk \<open>a\<close>.\<close>

definition one_chunk_system :: rag_system where
  "one_chunk_system =
     snd (create_index (constant_backend []) [ustr ''a''] None
            (rag_init (ustr ''gpt'') (ustr ''text-embedding-ada-002'')))"

text \<open>Two artifacts of different lengths: two vectors, one chunk.\<close>

definition mismatched_files :: filesystem where
  "mismatched_files path =
     (if path = ustr ''doc.faiss''
      then Some \<lparr>read_by_faiss = Some \<lparr>faiss_d = 1, faiss_vectors = [[0], [1]]\<rparr>,
                 read_by_pickle = Inl UnpicklingError\<rparr>
      else if path = ustr ''doc.pkl''
      then Some \<lparr>read_by_faiss = None,
                 read_by_pickle =
                   Inr (PickledDict \<lparr>pickled_chunks = Some [ustr ''a''],
                                     pickled_metadata = Some [[(''index'', VInt 0)]]\<rparr>)\<rparr>
      else None)"

text \<open>An empty file, and a file that holds a pickled list.\<close>

definition empty_file :: stored_file where
  "empty_file = \<lparr>read_by_faiss = None, read_by_pickle = Inl EOFError\<rparr>"

definition pickled_list_file :: stored_file where
  "pickled_list_file = \<lparr>read_by_faiss = None, read_by_pickle = Inr PickledOther\<rparr>"


section \<open>Properties of normalization\<close>

lemma is_space_32 [simp]: "is_space 32"
  by (simp add: is_space_def)

lemma is_space_10 [simp]: "is_space 10"
  by (simp add: is_space_def)

lemma not_is_space_0 [simp]: "\<not> is_space 0"
  by (simp add: is_space_def)

lemma re_sub_whitespace_spaces:
  "c \<in> set (re_sub_whitespace t) \<Longrightarrow> is_space c \<Longrightarrow> c = 32"
  by (induction t rule: re_sub_whitespace.induct) (auto split: if_splits)

lemma re_sub_newlines_id:
  "10 \<notin> set t \<Longrightarrow> re_sub_newlines t = t"
  by (induction t rule: re_sub_newlines.induct) auto

lemma no_newline_after_whitespace: "10 \<notin> set (re_sub_whitespace t)"
  using re_sub_whitespace_spaces [of 10 t] by auto

lemma set_py_strip: "set (py_strip s) \<subseteq> set s"
  by (auto simp: py_strip_def dest!: set_dropWhileD)

text \<open>
  The second substitution never fires: after the first one no newline is left, so the
  normalized text is the stripped, NUL-free whitespace collapse and holds no newline.
\<close>

lemma clean_text_alt: "clean_text t = py_strip (remove_nul (re_sub_whitespace t))"
  by (simp add: clean_text_def re_sub_newlines_id no_newline_after_whitespace)

lemma clean_text_no_newline: "10 \<notin> set (clean_text t)"
proof -
  have "set (clean_text t) \<subseteq> set (re_sub_whitespace t)"
    unfolding clean_text_alt remove_nul_def using set_py_strip by fastforce
  then show ?thesis
    using no_newline_after_whitespace by blast
qed

lemma last_dropWhile_nonempty:
  "dropWhile P xs \<noteq> [] \<Longrightarrow> last (dropWhile P xs) = last xs"
  by (metis last_appendR takeWhile_dropWhile_id)

lemma py_strip_idem: "py_strip (py_strip s) = py_strip s"
proof -
  define A where "A = dropWhile is_space s"
  define B where "B = dropWhile is_space (rev A)"
  have strip: "py_strip s = rev B"
    by (simp add: py_strip_def A_def B_def)
  have front: "dropWhile is_space (rev B) = rev B"
  proof (cases "B = []")
    case True
    then show ?thesis by simp
  next
    case False
    then have "A \<noteq> []" by (auto simp: B_def)
    then have "\<not> is_space (hd A)"
      unfolding A_def by (rule hd_dropWhile)
    moreover have "last B = hd A"
      using False \<open>A \<noteq> []\<close> last_dropWhile_nonempty [of is_space "rev A"]
      by (simp add: B_def last_rev)
    ultimately have "\<not> is_space (hd (rev B))"
      using False by (simp add: hd_rev)
    then show ?thesis
      using False by (cases "rev B") auto
  qed
  have rear: "dropWhile is_space B = B"
    by (simp add: B_def)
  show ?thesis
    unfolding strip by (simp add: py_strip_def front rear)
qed

text \<open>
  C5 (paragraph breaks survive normalization as two newlines). The source announces
  "keep paragraph breaks", but the whitespace collapse runs first and has already turned
  every newline into a space: the text \<open>a\n\nb\<close> normalizes to \<open>a b\<close>.
\<close>

theorem clean_text_paragraph_break_lost:
  "clean_text (ustr ''a\<newline>\<newline>b'') = ustr ''a b''"
  by (simp add: clean_text_def ustr_def py_strip_def remove_nul_def is_space_def)

text \<open>
  C8 (normalization is idempotent). NUL characters are removed after the whitespace
  collapse, so the spaces on both sides of a NUL end up adjacent: \<open>a \x00 b\<close> normalizes
  to \<open>a  b\<close> with two spaces, and normalizing that again gives \<open>a b\<close>.
\<close>

theorem clean_text_not_idempotent:
  "clean_text [97, 32, 0, 32, 98] = [97, 32, 32, 98] \<and>
   clean_text (clean_text [97, 32, 0, 32, 98]) = [97, 32, 98]"
  by (simp add: clean_text_def py_strip_def remove_nul_def is_space_def)

subsection \<open>Texts without NUL\<close>

text \<open>
  Away from NUL characters the normalized text is collapsed, and normalizing it again
  changes nothing.
\<close>

lemma collapsed_dropWhile_Cons:
  "\<not> is_space c \<Longrightarrow> collapsed cs \<Longrightarrow> collapsed (c # cs)"
  by (cases cs) auto

lemma collapsed_re_sub_whitespace: "collapsed (re_sub_whitespace t)"
proof (induction t rule: re_sub_whitespace.induct)
  case 1
  show ?case by simp
next
  case (2 c cs)
  show ?case
  proof (cases "is_space c")
    case True
    let ?r = "dropWhile is_space cs"
    have "collapsed (re_sub_whitespace ?r)" using 2(1) True by simp
    moreover have "re_sub_whitespace ?r = [] \<or> \<not> is_space (hd (re_sub_whitespace ?r))"
    proof (cases ?r)
      case Nil
      then show ?thesis by (simp only: re_sub_whitespace.simps) simp
    next
      case (Cons d ds)
      then have "\<not> is_space d" using hd_dropWhile [of is_space cs] by auto
      then show ?thesis using Cons by simp
    qed
    ultimately show ?thesis
      using True by (cases "re_sub_whitespace ?r") auto
  next
    case False
    then show ?thesis using 2(2) by (simp add: collapsed_dropWhile_Cons)
  qed
qed

lemma re_sub_whitespace_collapsed: "collapsed t \<Longrightarrow> re_sub_whitespace t = t"
  by (induction t rule: collapsed.induct) (auto)

lemma collapsed_tl: "collapsed (c # cs) \<Longrightarrow> collapsed cs"
  by (cases cs) auto

lemma collapsed_dropWhile: "collapsed t \<Longrightarrow> collapsed (dropWhile P t)"
proof (induction t)
  case Nil
  then show ?case by simp
next
  case (Cons a t)
  show ?case
  proof (cases "P a")
    case True
    then show ?thesis using Cons.IH collapsed_tl [OF Cons.prems] by simp
  next
    case False
    then show ?thesis using Cons.prems by simp
  qed
qed

lemma collapsed_hd: "collapsed (c # ys) \<Longrightarrow> is_space c \<Longrightarrow> c = 32"
  by (cases ys) auto

lemma collapsed_prefix: "collapsed (xs @ ys) \<Longrightarrow> collapsed xs"
  by (induction xs rule: collapsed.induct) (auto dest: collapsed_hd)

lemma collapsed_py_strip: "collapsed t \<Longrightarrow> collapsed (py_strip t)"
proof -
  assume "collapsed t"
  then have c: "collapsed (dropWhile is_space t)" by (rule collapsed_dropWhile)
  let ?ys = "dropWhile is_space t"
  have "?ys = rev (dropWhile is_space (rev ?ys)) @ rev (takeWhile is_space (rev ?ys))"
    by (metis rev_append rev_rev_ident takeWhile_dropWhile_id)
  then show ?thesis
    using c collapsed_prefix unfolding py_strip_def by metis
qed

lemma re_sub_whitespace_no_nul: "0 \<notin> set t \<Longrightarrow> 0 \<notin> set (re_sub_whitespace t)"
  by (induction t rule: re_sub_whitespace.induct) (auto dest: set_dropWhileD)

lemma remove_nul_id: "0 \<notin> set xs \<Longrightarrow> remove_nul xs = xs"
  by (induction xs) (auto simp: remove_nul_def)

lemma clean_text_no_nul:
  assumes "0 \<notin> set t"
  shows "clean_text t = py_strip (re_sub_whitespace t)"
proof -
  have "remove_nul (re_sub_whitespace t) = re_sub_whitespace t"
    using re_sub_whitespace_no_nul [OF assms] by (rule remove_nul_id)
  then show ?thesis
    by (simp add: clean_text_alt)
qed

lemma collapsed_clean_text: "0 \<notin> set t \<Longrightarrow> collapsed (clean_text t)"
  unfolding clean_text_no_nul by (rule collapsed_py_strip [OF collapsed_re_sub_whitespace])

lemma clean_text_idem_no_nul:
  assumes "0 \<notin> set t"
  shows "clean_text (clean_text t) = clean_text t"
proof -
  have c: "collapsed (clean_text t)"
    using assms by (rule collapsed_clean_text)
  have "0 \<notin> set (clean_text t)"
    unfolding clean_text_no_nul [OF assms]
    using re_sub_whitespace_no_nul [OF assms] set_py_strip by blast
  then have n2: "remove_nul (clean_text t) = clean_text t"
    by (rule remove_nul_id)
  have r: "re_sub_whitespace (clean_text t) = clean_text t"
    by (rule re_sub_whitespace_collapsed [OF c])
  have "clean_text (clean_text t) = py_strip (clean_text t)"
    by (simp only: clean_text_alt [of "clean_text t"] r n2)
  also have "\<dots> = clean_text t"
    unfolding clean_text_def by (rule py_strip_idem)
  finally show ?thesis .
qed

text \<open>
  In a collapsed text no two neighbours are both whitespace, and a stripped text ends in
  a character other than whitespace.
\<close>

lemma collapsed_adjacent:
  "collapsed t \<Longrightarrow> Suc i < length t \<Longrightarrow> is_space (t ! i) \<Longrightarrow> \<not> is_space (t ! Suc i)"
proof (induction t arbitrary: i rule: collapsed.induct)
  case (3 c d cs)
  then show ?case by (cases i) auto
qed simp_all

lemma py_strip_last:
  assumes "py_strip t = t" "t \<noteq> []"
  shows "\<not> is_space (last t)"
proof -
  define B where "B = dropWhile is_space (rev (dropWhile is_space t))"
  have t: "t = rev B"
    using assms(1) by (simp add: py_strip_def B_def)
  then have "B \<noteq> []" using assms(2) by simp
  then have "\<not> is_space (hd B)"
    unfolding B_def by (rule hd_dropWhile)
  then show ?thesis
    using \<open>B \<noteq> []\<close> by (simp add: t last_rev)
qed

section \<open>Properties of chunking\<close>

subsection \<open>Windows, slices and inherited metadata\<close>

lemma window_end_cases:
  "window_end cs txt start = start + cs \<or> start + cs div 2 + 2 \<le> window_end cs txt start"
  by (auto simp: window_end_def Let_def)

lemma window_end_progress:
  assumes "ov < cs" "ov \<le> cs div 2 + 1"
  shows "start + 1 \<le> window_end cs txt start - ov"
  using window_end_cases [of cs "txt" start] assms by auto

lemma py_strip_nonempty:
  assumes "x \<in> set xs" "\<not> is_space x"
  shows "py_strip xs \<noteq> []"
proof -
  let ?ys = "dropWhile is_space xs"
  have ne: "?ys \<noteq> []"
    using assms by (auto simp: dropWhile_eq_Nil_conv)
  then have "\<not> is_space (hd ?ys)"
    by (rule hd_dropWhile)
  moreover have "hd ?ys \<in> set (rev ?ys)"
    using ne by simp
  ultimately have "dropWhile is_space (rev ?ys) \<noteq> []"
    by (auto simp: dropWhile_eq_Nil_conv)
  then show ?thesis
    by (simp add: py_strip_def)
qed

lemma py_slice_member:
  assumes "0 \<le> start" "start \<le> int i" "int i < end" "i < length xs"
  shows "xs ! i \<in> set (py_slice xs start end)"
proof -
  define s where "s = adjust_index (int (length xs)) start"
  define e where "e = adjust_index (int (length xs)) end"
  have s: "s = nat start" and e: "i < e" and si: "s \<le> i"
    using assms by (auto simp: s_def e_def adjust_index_def)
  have "i - s < length (take (e - s) (drop s xs))"
    using e si assms(4) by auto
  moreover have "take (e - s) (drop s xs) ! (i - s) = xs ! i"
    using e si assms(4) by auto
  ultimately have "xs ! i \<in> set (take (e - s) (drop s xs))"
    by (metis nth_mem)
  then show ?thesis
    by (simp add: py_slice_def s_def e_def Let_def)
qed

lemma map_of_dict_update_other:
  "k \<notin> fst ` set other \<Longrightarrow> map_of (dict_update d other) k = map_of d k"
  unfolding dict_update_def
  by (induction other arbitrary: d) (auto simp: update_conv')

lemma map_of_inherit_segment:
  "k = ''char_start'' \<or> k = ''char_end'' \<Longrightarrow> map_of (inherit_segment ms start cd) k = map_of cd k"
  by (induction ms start cd rule: inherit_segment.induct)
     (auto split: option.splits intro!: map_of_dict_update_other)

lemma chunk_range_add_source_metadata:
  "chunk_range (add_source_metadata md start' (chunk_data t cid start end)) = Some (start, end)"
  by (simp add: chunk_range_def add_source_metadata_def map_of_inherit_segment chunk_data_def
      split: option.splits)

lemma covered_append: "covered (xs @ ys) i \<longleftrightarrow> covered xs i \<or> covered ys i"
  by (auto simp: covered_def list_ex_iff)

lemma extract_chunk_keeps:
  "covered (snd acc) i \<Longrightarrow> covered (snd (extract_chunk txt md start end acc)) i"
  by (simp add: extract_chunk_def Let_def covered_append)

lemma extract_chunk_covers:
  assumes "py_strip (py_slice txt start end) \<noteq> []" "start \<le> i" "i < end"
  shows "covered (snd (extract_chunk txt md start end acc)) i"
  using assms
  by (simp add: extract_chunk_def covered_append covered_def in_range_def
      chunk_range_add_source_metadata)

text \<open>
  A window is extracted when it holds a character other than whitespace, and so is every
  window of two or more positions of a collapsed and stripped text.
\<close>

lemma window_with_character:
  assumes "0 \<le> start" "start \<le> int i" "int i < end" "i < length txt"
    and "\<not> is_space (txt ! i)"
  shows "py_strip (py_slice txt start end) \<noteq> []"
  using py_strip_nonempty [OF py_slice_member [OF assms(1-4)] assms(5)] .

lemma window_not_blank:
  assumes "collapsed t" "py_strip t = t" "0 \<le> start" "start < int (length t)"
    and "start + 2 \<le> e"
  shows "py_strip (py_slice t start e) \<noteq> []"
proof -
  define s where "s = nat start"
  have s: "int s = start" "s < length t"
    using assms(3,4) by (simp_all add: s_def)
  have "\<exists>i. start \<le> int i \<and> int i < e \<and> i < length t \<and> \<not> is_space (t ! i)"
  proof (cases "Suc s < length t")
    case True
    show ?thesis
    proof (cases "is_space (t ! s)")
      case True
      then have "\<not> is_space (t ! Suc s)"
        using collapsed_adjacent [OF assms(1) \<open>Suc s < length t\<close>] by simp
      then show ?thesis
        using s assms(5) \<open>Suc s < length t\<close> by (intro exI [of _ "Suc s"]) simp
    next
      case False
      then show ?thesis
        using s assms(5) by (intro exI [of _ s]) simp
    qed
  next
    case False
    then have l: "s = length t - 1" "t \<noteq> []"
      using s(2) by auto
    then have "\<not> is_space (t ! s)"
      using py_strip_last [OF assms(2)] by (simp add: last_conv_nth)
    then show ?thesis
      using s assms(5) by (intro exI [of _ s]) simp
  qed
  then obtain i where "start \<le> int i" "int i < e" "i < length t" "\<not> is_space (t ! i)"
    by blast
  then show ?thesis
    using assms(3) by (intro window_with_character [of start i e t])
qed

lemma window_end_two: "2 \<le> cs \<Longrightarrow> start + 2 \<le> window_end cs txt start"
  using window_end_cases [of cs "txt" start] by auto

lemma seen_iff:
  "seen need n chunks b \<longleftrightarrow>
     (\<forall>i<n. int i < b \<longrightarrow> need i \<longrightarrow> covered chunks (int i))"
  unfolding seen_def list_all_iff by (simp add: Ball_def) force

text \<open>
  The loop under an overlap that lets every window advance: it returns, and it covers the
  needed positions when every window that holds one is extracted.
\<close>

lemma chunk_loop_covers:
  assumes "0 \<le> ov" "ov < cs" "ov \<le> cs div 2 + 1"
    and extracted: "\<And>start i. 0 \<le> start \<Longrightarrow> start \<le> int i \<Longrightarrow>
      int i < window_end cs t start \<Longrightarrow> i < length t \<Longrightarrow> need i \<Longrightarrow>
      py_strip (py_slice t start (window_end cs t start)) \<noteq> []"
  shows "0 \<le> start \<Longrightarrow> seen need (length t) (snd acc) start \<Longrightarrow>
     \<exists>chunks. chunk_loop cs ov t md start acc = Some chunks \<and>
       seen need (length t) chunks (int (length t))"
proof (induction "nat (int (length t) - start)" arbitrary: start acc rule: less_induct)
  case less
  show ?case
  proof (cases "start < int (length t)")
    case False
    then have "chunk_loop cs ov t md start acc = Some (snd acc)"
      by (subst chunk_loop.simps) simp
    moreover have "seen need (length t) (snd acc) (int (length t))"
      using less.prems(2) False by (auto simp: seen_iff)
    ultimately show ?thesis by blast
  next
    case True
    define e where "e = window_end cs t start"
    define acc' where "acc' = extract_chunk t md start e acc"
    have prog: "start + 1 \<le> e - ov"
      unfolding e_def using window_end_progress [OF assms(2,3)] .
    have seen': "seen need (length t) (snd acc') e"
      unfolding seen_iff
    proof (intro allI impI)
      fix i assume i: "i < length t" "int i < e" "need i"
      show "covered (snd acc') (int i)"
      proof (cases "int i < start")
        case True
        then have "covered (snd acc) (int i)"
          using less.prems(2) i by (auto simp: seen_iff)
        then show ?thesis unfolding acc'_def by (rule extract_chunk_keeps)
      next
        case False
        then have "py_strip (py_slice t start e) \<noteq> []"
          using extracted [of start i] less.prems(1) i by (simp add: e_def)
        then show ?thesis unfolding acc'_def
          using False i(2) by (intro extract_chunk_covers) simp_all
      qed
    qed
    show ?thesis
    proof (cases "e \<ge> int (length t)")
      case True
      have "chunk_loop cs ov t md start acc = Some (snd acc')"
        using \<open>start < int (length t)\<close> True
        by (subst chunk_loop.simps) (simp add: e_def acc'_def Let_def)
      moreover have "seen need (length t) (snd acc') (int (length t))"
        using seen' True by (auto simp: seen_iff)
      ultimately show ?thesis by blast
    next
      case False
      have step: "chunk_loop cs ov t md start acc = chunk_loop cs ov t md (e - ov) acc'"
        using \<open>start < int (length t)\<close> False prog less.prems(1)
        by (subst chunk_loop.simps) (simp add: e_def acc'_def Let_def)
      have "nat (int (length t) - (e - ov)) < nat (int (length t) - start)"
        using prog \<open>start < int (length t)\<close> by linarith
      moreover have "0 \<le> e - ov" using prog less.prems(1) by linarith
      moreover have "seen need (length t) (snd acc') (e - ov)"
        using seen' assms(1) by (auto simp: seen_iff)
      ultimately show ?thesis
        using less.hyps [of "e - ov" acc'] step by simp
    qed
  qed
qed

subsection \<open>A configuration on which the loop never leaves\<close>

lemma clean_text_stuck: "clean_text stuck_text = stuck_text"
  by (simp add: stuck_text_def clean_text_def ustr_def py_strip_def remove_nul_def is_space_def)

lemma length_stuck: "length stuck_text = 18"
  by (simp add: stuck_text_def ustr_def)

lemma window_end_stuck:
  "window_end 10 stuck_text 0 = 10"
  "window_end 10 stuck_text 1 = 10"
  by (simp_all add: stuck_text_def window_end_def ustr_def py_rfind_def py_slice_def
      adjust_index_def)

lemma chunk_loop_stuck: "chunk_loop 10 9 stuck_text md 1 acc = None"
proof -
  have key: "\<not> (cs = 10 \<and> ov = 9 \<and> t = stuck_text \<and> start = 1)"
    if ret: "chunk_loop cs ov t md start acc = Some r" for cs ov t md start acc r
  proof (rule chunk_loop.raw_induct [where P = "\<lambda>cs ov t md start acc r.
        \<not> (cs = 10 \<and> ov = 9 \<and> t = stuck_text \<and> start = 1)", OF _ ret], goal_cases)
    case (1 f cs ov t md start acc r)
    show ?case
    proof
      assume "cs = 10 \<and> ov = 9 \<and> t = stuck_text \<and> start = 1"
      then have "f 10 9 stuck_text md 1 (extract_chunk stuck_text md 1 10 acc) = Some r"
        using 1(2) by (simp add: window_end_stuck length_stuck Let_def)
      from 1(1) [OF this] show False by simp
    qed
  qed
  show ?thesis
  proof (cases "chunk_loop 10 9 stuck_text md 1 acc")
    case None
    then show ?thesis .
  next
    case (Some r)
    from key [OF this] show ?thesis by simp
  qed
qed

text \<open>
  C6 (the chunking loop terminates for every text and every configuration with
  \<open>chunk_size > 0\<close> and \<open>0 \<le> chunk_overlap < chunk_size\<close>). With \<open>chunk_size = 10\<close> and
  \<open>chunk_overlap = 9\<close> the window \<open>[1, 11)\<close> of \<open>aaaaaaaaa.aaaaaaaa\<close> is cut after the full
  stop at offset 9, so the next start is \<open>10 - 9 = 1\<close> again: neither exit of the guard
  commented "Prevent infinite loop" is taken and \<open>create_chunks\<close> does not return.
\<close>

theorem create_chunks_never_returns:
  "create_chunks 10 9 (ustr ''aaaaaaaaa.aaaaaaaa'') None = None"
proof -
  have "chunk_loop 10 9 stuck_text None 0 (0, []) =
        chunk_loop 10 9 stuck_text None 1 (extract_chunk stuck_text None 0 10 (0, []))"
    by (subst chunk_loop.simps) (simp add: window_end_stuck length_stuck Let_def)
  then have "create_chunks 10 9 stuck_text None = None"
    by (simp add: create_chunks_def clean_text_stuck chunk_loop_stuck)
  then show ?thesis
    by (simp add: stuck_text_def)
qed

subsection \<open>Configurations on which the loop returns\<close>

text \<open>
  A window cut at a sentence end still spans more than \<open>chunk_size div 2 + 1\<close> characters,
  so an overlap of at most that much moves every start forward and the loop returns.
\<close>

lemma create_chunks_returns:
  assumes "0 \<le> chunk_overlap" "chunk_overlap < chunk_size"
    and "chunk_overlap \<le> chunk_size div 2 + 1"
  shows "\<exists>chunks. create_chunks chunk_size chunk_overlap raw md = Some chunks"
  using chunk_loop_covers [OF assms, where need = "\<lambda>i. False" and t = "clean_text raw"
      and start = 0 and acc = "(0, [])" and md = md]
  by (auto simp: create_chunks_def seen_iff)

text \<open>
  With a larger overlap the start can also fall back to 0 or below, and the loop then
  leaves through \<open>start <= 0\<close> with the rest of the text unread: here after one chunk of 7
  of 18 characters.
\<close>

lemma create_chunks_early_exit:
  "create_chunks 10 9 (ustr ''aaaaaa.aaaaaaaaaaa'') None =
     Some [chunk_data (ustr ''aaaaaa.'') 0 0 7] \<and>
   length (clean_text (ustr ''aaaaaa.aaaaaaaaaaa'')) = 18"
  by (simp add: create_chunks_def clean_text_def py_strip_def remove_nul_def is_space_def
      ustr_def chunk_loop.simps window_end_def extract_chunk_def py_slice_def adjust_index_def
      add_source_metadata_def py_rfind_def chunk_data_def Let_def)

subsection \<open>Coverage\<close>

lemma seen_covers_text:
  "seen (\<lambda>i. \<not> is_space (t ! i)) (length t) chunks (int (length t)) \<longleftrightarrow> covers_text t chunks"
  by (auto simp: seen_iff covers_text_def list_all_iff)

lemma seen_covers:
  "seen (\<lambda>i. True) n chunks (int n) \<longleftrightarrow> covers chunks n"
  by (auto simp: seen_iff covers_def list_all_iff)

lemma chunk_loop_covers_text:
  assumes "0 \<le> ov" "ov < cs" "ov \<le> cs div 2 + 1"
  shows "\<exists>chunks. chunk_loop cs ov t md 0 (0, []) = Some chunks \<and> covers_text t chunks"
  unfolding seen_covers_text [symmetric]
  by (rule chunk_loop_covers [OF assms]) (simp_all add: seen_iff window_with_character)

lemma chunk_loop_covers_all:
  assumes "0 \<le> ov" "ov < cs" "ov \<le> cs div 2 + 1"
    and "2 \<le> cs" "collapsed t" "py_strip t = t"
  shows "\<exists>chunks. chunk_loop cs ov t md 0 (0, []) = Some chunks \<and> covers chunks (length t)"
  unfolding seen_covers [symmetric]
proof (rule chunk_loop_covers [OF assms(1-3)])
  fix start i
  assume "0 \<le> start" "start \<le> int i" "i < length t"
  then show "py_strip (py_slice t start (window_end cs t start)) \<noteq> []"
    using window_end_two [OF assms(4), of start t]
    by (intro window_not_blank [OF assms(5,6)]) simp_all
qed (simp_all add: seen_iff)

text \<open>
  C7, as the code has it: when \<open>0 \<le> chunk_overlap < chunk_size\<close> and
  \<open>chunk_overlap \<le> chunk_size div 2 + 1\<close> (so that every window moves the start forward),
  \<open>create_chunks\<close> returns, and every position of the normalized text that holds a
  character other than whitespace lies in the range \<open>[char_start, char_end)\<close> of an emitted
  chunk. When moreover \<open>chunk_size \<ge> 2\<close> and the normalized text is collapsed (as that of
  every text without NUL is), the ranges cover all of \<open>[0, len(text))\<close>. Only a window whose
  stripped text is empty is skipped: a lone space when \<open>chunk_size = 1\<close>, or spaces that the
  removal of a NUL has left side by side.
\<close>

theorem create_chunks_covers_text:
  assumes "0 \<le> chunk_overlap" "chunk_overlap < chunk_size"
    and "chunk_overlap \<le> chunk_size div 2 + 1"
  shows "\<exists>chunks. create_chunks chunk_size chunk_overlap raw metadata = Some chunks \<and>
           covers_text (clean_text raw) chunks \<and>
           (2 \<le> chunk_size \<and> collapsed (clean_text raw) \<longrightarrow>
              covers chunks (length (clean_text raw)))"
proof -
  obtain chunks where c:
    "chunk_loop chunk_size chunk_overlap (clean_text raw) metadata 0 (0, []) = Some chunks"
    "covers_text (clean_text raw) chunks"
    using chunk_loop_covers_text [OF assms] by blast
  have "covers chunks (length (clean_text raw))"
    if "2 \<le> chunk_size" "collapsed (clean_text raw)"
  proof -
    have "py_strip (clean_text raw) = clean_text raw"
      unfolding clean_text_def by (rule py_strip_idem)
    then show ?thesis
      using chunk_loop_covers_all [OF assms that, of metadata] c(1) by auto
  qed
  then show ?thesis
    using c by (auto simp: create_chunks_def)
qed

theorem create_chunks_covers_text_witness:
  "(0::int) \<le> 2 \<and> (2::int) < 5 \<and> (2::int) \<le> 5 div 2 + 1 \<and> (2::int) \<le> 5 \<and>
   collapsed (clean_text (ustr ''hello  world. ok?'')) \<and>
   (\<exists>chunks. create_chunks 5 2 (ustr ''hello  world. ok?'') None = Some chunks \<and>
      covers_text (clean_text (ustr ''hello  world. ok?'')) chunks \<and>
      covers chunks (length (clean_text (ustr ''hello  world. ok?''))))"
proof -
  have "0 \<notin> set (ustr ''hello  world. ok?'')"
    by (simp add: ustr_def)
  then have "collapsed (clean_text (ustr ''hello  world. ok?''))"
    by (rule collapsed_clean_text)
  then show ?thesis
    using create_chunks_covers_text [of 2 5 "ustr ''hello  world. ok?''" None] by simp
qed

text \<open>
  C7 as stated (for every valid configuration the ranges of the emitted chunks cover all
  of \<open>[0, len(text))\<close>) fails in three ways. With \<open>chunk_size = 1\<close> the text \<open>a b\<close> gives the
  ranges \<open>[0, 1)\<close> and \<open>[2, 3)\<close>: the window \<open>[1, 2)\<close> holds only the space and is skipped.
  With \<open>chunk_size = 2\<close> the text \<open>ab \x00 cd\<close> normalizes to \<open>ab  cd\<close> and gives \<open>[0, 2)\<close> and
  \<open>[4, 6)\<close>: the window \<open>[2, 4)\<close> holds the two spaces. With \<open>chunk_size = 10\<close> and
  \<open>chunk_overlap = 9\<close> the text \<open>aaaaaa.aaaaaaaaaaa\<close> gives \<open>[0, 7)\<close> alone: the next start is
  \<open>7 - 9\<close>, and the loop leaves with 11 characters unread.
\<close>

lemma covers_covered: "covers chunks n \<Longrightarrow> i < n \<Longrightarrow> covered chunks (int i)"
  by (simp add: covers_def list_all_iff)

lemma create_chunks_nul_gap:
  "create_chunks 2 0 [97, 98, 32, 0, 32, 99, 100] None =
     Some [chunk_data (ustr ''ab'') 0 0 2, chunk_data (ustr ''cd'') 1 4 6] \<and>
   length (clean_text [97, 98, 32, 0, 32, 99, 100]) = 6"
  by (simp add: create_chunks_def clean_text_def py_strip_def remove_nul_def is_space_def
      ustr_def chunk_loop.simps window_end_def extract_chunk_def py_slice_def adjust_index_def
      add_source_metadata_def py_rfind_def chunk_data_def Let_def)

theorem create_chunks_gap_counterexample:
  "create_chunks 1 0 (ustr ''a b'') None =
     Some [chunk_data (ustr ''a'') 0 0 1, chunk_data (ustr ''b'') 1 2 3] \<and>
   length (clean_text (ustr ''a b'')) = 3 \<and>
   \<not> covers [chunk_data (ustr ''a'') 0 0 1, chunk_data (ustr ''b'') 1 2 3] 3 \<and>
   create_chunks 2 0 [97, 98, 32, 0, 32, 99, 100] None =
     Some [chunk_data (ustr ''ab'') 0 0 2, chunk_data (ustr ''cd'') 1 4 6] \<and>
   length (clean_text [97, 98, 32, 0, 32, 99, 100]) = 6 \<and>
   \<not> covers [chunk_data (ustr ''ab'') 0 0 2, chunk_data (ustr ''cd'') 1 4 6] 6 \<and>
   create_chunks 10 9 (ustr ''aaaaaa.aaaaaaaaaaa'') None =
     Some [chunk_data (ustr ''aaaaaa.'') 0 0 7] \<and>
   length (clean_text (ustr ''aaaaaa.aaaaaaaaaaa'')) = 18 \<and>
   \<not> covers [chunk_data (ustr ''aaaaaa.'') 0 0 7] 18"
proof -
  have "\<not> covered [chunk_data (ustr ''a'') 0 0 1, chunk_data (ustr ''b'') 1 2 3] (int 1)"
    by (simp add: covered_def in_range_def chunk_range_def chunk_data_def)
  then have a: "\<not> covers [chunk_data (ustr ''a'') 0 0 1, chunk_data (ustr ''b'') 1 2 3] 3"
    using covers_covered [of _ 3 1] by fastforce
  have "\<not> covered [chunk_data (ustr ''ab'') 0 0 2, chunk_data (ustr ''cd'') 1 4 6] (int 2)"
    by (simp add: covered_def in_range_def chunk_range_def chunk_data_def)
  then have b: "\<not> covers [chunk_data (ustr ''ab'') 0 0 2, chunk_data (ustr ''cd'') 1 4 6] 6"
    using covers_covered [of _ 6 2] by fastforce
  have "\<not> covered [chunk_data (ustr ''aaaaaa.'') 0 0 7] (int 7)"
    by (simp add: covered_def in_range_def chunk_range_def chunk_data_def)
  then have c: "\<not> covers [chunk_data (ustr ''aaaaaa.'') 0 0 7] 18"
    using covers_covered [of _ 18 7] by fastforce
  have "create_chunks 1 0 (ustr ''a b'') None =
     Some [chunk_data (ustr ''a'') 0 0 1, chunk_data (ustr ''b'') 1 2 3]"
    by (simp add: create_chunks_def clean_text_def py_strip_def remove_nul_def is_space_def
      ustr_def chunk_loop.simps window_end_def extract_chunk_def py_slice_def adjust_index_def
      add_source_metadata_def py_rfind_def chunk_data_def Let_def)
  moreover have "length (clean_text (ustr ''a b'')) = 3"
    by (simp add: clean_text_def py_strip_def remove_nul_def is_space_def ustr_def)
  ultimately show ?thesis
    using a b c create_chunks_nul_gap create_chunks_early_exit by blast
qed

subsection \<open>A text shorter than the window\<close>

lemma py_slice_all: "int (length xs) \<le> e \<Longrightarrow> py_slice xs 0 e = xs"
  by (simp add: py_slice_def adjust_index_def)

lemma chunk_loop_short:
  assumes "py_strip t = t" "t \<noteq> []" "int (length t) < chunk_size"
  shows "chunk_loop chunk_size chunk_overlap t metadata 0 (0, []) =
     Some [add_source_metadata metadata 0 (chunk_data t 0 0 chunk_size)]"
proof -
  have w: "window_end chunk_size t 0 = chunk_size"
    using assms(3) by (simp add: window_end_def)
  have e: "extract_chunk t metadata 0 chunk_size (0, []) =
      (1, [add_source_metadata metadata 0 (chunk_data t 0 0 chunk_size)])"
    using assms by (simp add: extract_chunk_def py_slice_all)
  show ?thesis
    using assms(2,3) by (subst chunk_loop.simps) (simp add: w e Let_def)
qed

lemma create_chunks_short:
  assumes "clean_text raw \<noteq> []" "int (length (clean_text raw)) < chunk_size"
  shows "create_chunks chunk_size chunk_overlap raw metadata =
     Some [add_source_metadata metadata 0 (chunk_data (clean_text raw) 0 0 chunk_size)]"
proof -
  have "py_strip (clean_text raw) = clean_text raw"
    unfolding clean_text_def by (rule py_strip_idem)
  then show ?thesis
    unfolding create_chunks_def using assms by (rule chunk_loop_short)
qed

lemma map_of_add_source_metadata:
  "k \<notin> inherited_keys metadata \<Longrightarrow>
   map_of (add_source_metadata metadata start cd) k = map_of cd k"
proof (cases metadata)
  case None
  then show ?thesis by (simp add: add_source_metadata_def)
next
  case (Some ms)
  assume "k \<notin> inherited_keys metadata"
  then have "\<forall>m\<in>set ms. k \<notin> fst ` set (seg_items m)"
    using Some by (auto simp: inherited_keys_def)
  then have "map_of (inherit_segment ms start cd) k = map_of cd k"
    by (induction ms start cd rule: inherit_segment.induct)
       (auto split: option.splits intro!: map_of_dict_update_other)
  then show ?thesis
    using Some by (simp add: add_source_metadata_def)
qed

text \<open>
  C9, as the code has it: for a non-empty normalized text strictly shorter than
  \<open>chunk_size\<close>, \<open>create_chunks\<close> returns exactly one chunk; its text is the whole normalized
  text (when no segment entry of its own is keyed \<open>text\<close>), its \<open>char_start\<close> is 0 and its
  \<open>char_end\<close> is \<open>chunk_size\<close>, the end of the window, which is not clamped to the length of
  the text.
\<close>

theorem create_chunks_short_text:
  assumes "clean_text raw \<noteq> []" "int (length (clean_text raw)) < chunk_size"
  shows "\<exists>c. create_chunks chunk_size chunk_overlap raw metadata = Some [c] \<and>
           chunk_range c = Some (0, chunk_size) \<and>
           (''text'' \<notin> inherited_keys metadata \<longrightarrow>
              map_of c ''text'' = Some (VStr (clean_text raw)))"
proof -
  let ?c = "add_source_metadata metadata 0 (chunk_data (clean_text raw) 0 0 chunk_size)"
  have "create_chunks chunk_size chunk_overlap raw metadata = Some [?c]"
    using assms by (rule create_chunks_short)
  moreover have "chunk_range ?c = Some (0, chunk_size)"
    by (rule chunk_range_add_source_metadata)
  moreover have "map_of ?c ''text'' = Some (VStr (clean_text raw))"
    if "''text'' \<notin> inherited_keys metadata"
    using map_of_add_source_metadata [OF that] by (simp add: chunk_data_def)
  ultimately show ?thesis by blast
qed

theorem create_chunks_short_text_witness:
  "clean_text (ustr '' abc '') \<noteq> [] \<and> int (length (clean_text (ustr '' abc ''))) < 1000 \<and>
   ''text'' \<notin> inherited_keys None \<and>
   (\<exists>c. create_chunks 1000 200 (ustr '' abc '') None = Some [c] \<and>
      map_of c ''text'' = Some (VStr (clean_text (ustr '' abc ''))) \<and>
      chunk_range c = Some (0, 1000))"
proof -
  have t: "clean_text (ustr '' abc '') = ustr ''abc''"
    by (simp add: clean_text_def ustr_def py_strip_def remove_nul_def is_space_def)
  have k: "''text'' \<notin> inherited_keys None"
    by (simp add: inherited_keys_def)
  show ?thesis
    using create_chunks_short_text [where raw = "ustr '' abc ''" and chunk_size = 1000
        and metadata = None and chunk_overlap = 200] k
    by (simp add: t) (auto simp: ustr_def)
qed

text \<open>
  C9 as stated (the range of the single chunk is exactly \<open>[0, len(text))\<close>) fails: the text
  \<open>abc\<close> with \<open>chunk_size = 1000\<close> gives one chunk with the range \<open>[0, 1000)\<close>, while the
  text has length 3.
\<close>

theorem create_chunks_short_text_counterexample:
  "create_chunks 1000 200 (ustr ''abc'') None = Some [chunk_data (ustr ''abc'') 0 0 1000] \<and>
   chunk_range (chunk_data (ustr ''abc'') 0 0 1000) = Some (0, 1000) \<and>
   int (length (clean_text (ustr ''abc''))) = 3"
proof -
  have t: "clean_text (ustr ''abc'') = ustr ''abc''"
    by (simp add: clean_text_def ustr_def py_strip_def remove_nul_def is_space_def)
  have "ustr ''abc'' \<noteq> []" "int (length (ustr ''abc'')) < 1000"
    by (simp_all add: ustr_def)
  then show ?thesis
    using create_chunks_short [of "ustr ''abc''" 1000 200 None]
    by (simp add: t add_source_metadata_def) (simp add: chunk_range_def chunk_data_def ustr_def)
qed

section \<open>Properties of the retrieval system\<close>

subsection \<open>Search with more neighbours than vectors\<close>

lemma batches_Nil: "batches [] = []"
  by (subst batches.simps) simp

lemma batches_single: "batches [x] = [[x]]"
  by (subst batches.simps) (simp add: batches_Nil)

lemma one_chunk_system_eq:
  "one_chunk_system =
     \<lparr>deployment_name = ustr ''gpt'', embedding_model = ustr ''text-embedding-ada-002'',
      self_index = Some \<lparr>faiss_d = 1, faiss_vectors = [[0]]\<rparr>,
      self_chunks = [ustr ''a''], self_metadata = [[(''index'', VInt 0)]],
      embedding_calls =
        [\<lparr>er_input = [ustr ''a''], er_model = ustr ''text-embedding-ada-002''\<rparr>],
      chat_calls = []\<rparr>"
  by (simp add: one_chunk_system_def create_index_def create_embeddings_def batches_single
      constant_backend_def rag_init_def np_array_def index_add_def IndexFlatL2_def
      default_metadata_def)

text \<open>
  A label \<open>-1\<close> passes the test \<open>idx < len(self.chunks)\<close>, and index \<open>-1\<close> of a Python list is
  its last element: every place the index could not fill becomes one more result.
\<close>

lemma collect_results_padding:
  assumes "cs \<noteq> []" "ms \<noteq> []"
  shows "collect_results cs ms (replicate n (- 1, d)) acc =
           Inr (acc @ replicate n (last cs, last ms, d))"
proof -
  have c: "py_index cs (- 1) = Inr (last cs)"
    using assms(1) by (cases cs rule: rev_cases) (auto simp: py_index_def nat_add_distrib)
  have m: "py_index ms (- 1) = Inr (last ms)"
    using assms(2) by (cases ms rule: rev_cases) (auto simp: py_index_def nat_add_distrib)
  show ?thesis
    by (induction n arbitrary: acc) (simp_all add: c m replicate_app_Cons_same)
qed

text \<open>
  In general: on an index that holds one vector per chunk, a search with \<open>k\<close> above the
  number of chunks returns \<open>k\<close> results, and those beyond the number of chunks all repeat
  the last chunk.
\<close>

lemma collect_results_valid:
  assumes "\<forall>(i, d) \<in> set xs. 0 \<le> i \<and> i < int (length cs) \<and> i < int (length ms)"
  shows "collect_results cs ms xs acc =
           Inr (acc @ map (\<lambda>(i, d). (cs ! nat i, ms ! nat i, d)) xs)"
  using assms
proof (induction xs arbitrary: acc)
  case Nil
  show ?case by simp
next
  case (Cons x xs)
  obtain i d where x: "x = (i, d)" by (cases x)
  have "0 \<le> i" "i < int (length cs)" "i < int (length ms)"
    using Cons.prems x by auto
  then have "collect_results cs ms (x # xs) acc =
      collect_results cs ms xs (acc @ [(cs ! nat i, ms ! nat i, d)])"
    by (simp add: x py_index_def)
  also have "\<dots> = Inr ((acc @ [(cs ! nat i, ms ! nat i, d)])
      @ map (\<lambda>(i, d). (cs ! nat i, ms ! nat i, d)) xs)"
    using Cons.prems by (intro Cons.IH) auto
  finally show ?case by (simp add: x)
qed

lemma collect_results_append:
  "collect_results cs ms xs acc = Inr r \<Longrightarrow>
   collect_results cs ms (xs @ ys) acc = collect_results cs ms ys r"
  by (induction cs ms xs acc rule: collect_results.induct)
     (auto split: if_splits sum.splits)

lemma knn_more_than_stored:
  assumes "length (faiss_vectors idx) < k"
  shows "\<exists>found. knn idx q k = found @ replicate (k - length found) (- 1, flt_max) \<and>
         length found \<le> length (faiss_vectors idx) \<and>
         (\<forall>(i, d) \<in> set found. 0 \<le> i \<and> i < int (length (faiss_vectors idx)))"
proof -
  define labelled where "labelled = zip (map int [0 ..< length (faiss_vectors idx)])
                         (map (l2sqr q) (faiss_vectors idx))"
  define reported where
    "reported = filter (\<lambda>(label, distance). distance < flt_max) labelled"
  define found where "found = sort_key snd reported"
  have "length reported \<le> length labelled"
    unfolding reported_def by (rule length_filter_le)
  then have len: "length found \<le> length (faiss_vectors idx)"
    by (simp add: found_def labelled_def)
  then have "take k found = found"
    using assms by simp
  moreover have "knn idx q k =
      take k found @ replicate (k - length (take k found)) (- 1, flt_max)"
    unfolding knn_def Let_def labelled_def reported_def found_def ..
  ultimately have "knn idx q k = found @ replicate (k - length found) (- 1, flt_max)"
    by simp
  moreover have "\<forall>(i, d) \<in> set found. 0 \<le> i \<and> i < int (length (faiss_vectors idx))"
    by (auto simp: found_def reported_def labelled_def dest!: set_zip_leftD)
  ultimately show ?thesis
    using len by blast
qed

lemma search_more_than_indexed:
  assumes idx: "self_index st = Some idx"
    and emb: "embeddings_create be \<lparr>er_input = [query], er_model = embedding_model st\<rparr> = Inr [q]"
    and dim: "length q = faiss_d idx"
    and cs: "length (self_chunks st) = length (faiss_vectors idx)"
    and ms: "length (self_metadata st) = length (faiss_vectors idx)"
    and ne: "self_chunks st \<noteq> []"
    and k: "int (length (self_chunks st)) < k"
  shows "\<exists>found. fst (search be query k st) =
           Inr (found @ replicate (nat k - length found)
                          (last (self_chunks st), last (self_metadata st), flt_max)) \<and>
         length found \<le> length (self_chunks st)"
proof -
  let ?n = "length (faiss_vectors idx)"
  have kn: "?n < nat k" using k cs by linarith
  obtain found where f: "knn idx q (nat k) = found @ replicate (nat k - length found) (- 1, flt_max)"
      "length found \<le> ?n"
      "\<forall>(i, d) \<in> set found. 0 \<le> i \<and> i < int ?n"
    using knn_more_than_stored [OF kn, of q] by blast
  define st' where "st' = st\<lparr>embedding_calls := embedding_calls st
      @ [\<lparr>er_input = [query], er_model = embedding_model st\<rparr>]\<rparr>"
  have ce: "create_embeddings be [query] st =
      (Inr \<lparr>nd_shape = [Suc 0, length q], nd_rows = [q]\<rparr>, st')"
    by (simp add: create_embeddings_def batches_single emb np_array_def st'_def)
  have se: "index_search idx \<lparr>nd_shape = [Suc 0, length q], nd_rows = [q]\<rparr> k =
      Inr ([map snd (knn idx q (nat k))], [map fst (knn idx q (nat k))])"
    using k dim by (simp add: index_search_def)
  have zp: "zip (map fst (knn idx q (nat k))) (map snd (knn idx q (nat k))) = knn idx q (nat k)"
    by (simp add: zip_map_fst_snd)
  have st: "self_chunks st' = self_chunks st" "self_metadata st' = self_metadata st"
    by (simp_all add: st'_def)
  have s: "fst (search be query k st) =
      collect_results (self_chunks st) (self_metadata st) (knn idx q (nat k)) []"
    by (simp add: search_def idx ce se zp st)
  define res where "res = map (\<lambda>(i, d). (self_chunks st ! nat i, self_metadata st ! nat i, d)) found"
  have "collect_results (self_chunks st) (self_metadata st) found [] = Inr res"
    using collect_results_valid [of found "self_chunks st" "self_metadata st" "[]"] f(3) cs ms
    by (simp add: res_def)
  then have "collect_results (self_chunks st) (self_metadata st) (knn idx q (nat k)) [] =
      collect_results (self_chunks st) (self_metadata st)
        (replicate (nat k - length found) (- 1, flt_max)) res"
    unfolding f(1) by (rule collect_results_append)
  also have "\<dots> = Inr (res @ replicate (nat k - length found)
      (last (self_chunks st), last (self_metadata st), flt_max))"
    using ne ms cs by (intro collect_results_padding) auto
  finally show ?thesis
    using s f(2) cs by (intro exI [of _ res]) (simp add: res_def)
qed

text \<open>
  C1 (a search with \<open>k\<close> greater than the number of indexed vectors returns exactly the
  indexed vectors, one result per chunk). On an index built from the single chunk \<open>a\<close>, a
  search with \<open>k = 2\<close> returns two results: the chunk at distance 0, and the same chunk
  again for the label \<open>-1\<close>, with the distance that marks a missing neighbour.
\<close>

theorem search_repeats_last_chunk:
  "fst (search (constant_backend []) (ustr ''q'') 2 one_chunk_system) =
     Inr [(ustr ''a'', [(''index'', VInt 0)], 0),
          (ustr ''a'', [(''index'', VInt 0)], flt_max)]"
  by (simp add: one_chunk_system_eq search_def create_embeddings_def batches_single
      constant_backend_def np_array_def index_search_def knn_def l2sqr_def py_index_def
      flt_max_def)

subsection \<open>Loading an index\<close>

text \<open>
  C2, as the code has it: \<open>load_index\<close> raises whenever one of the two artifacts is missing
  or unreadable; when both are readable it succeeds and assigns the index, the chunks and
  the metadata as they were read, without comparing their lengths.
\<close>

theorem load_index_result:
  "case artifacts fs index_path of
     None \<Rightarrow> isl (fst (load_index fs index_path st))
   | Some (idx, cs, ms) \<Rightarrow>
       load_index fs index_path st =
         (Inr (), st\<lparr>self_index := Some idx, self_chunks := cs, self_metadata := ms\<rparr>)"
  by (auto simp: artifacts_def load_index_def split: sum.splits option.splits)

theorem load_index_result_witness:
  "artifacts mismatched_files (ustr ''none'') = None \<and>
   isl (fst (load_index mismatched_files (ustr ''none'') (rag_init [] []))) \<and>
   artifacts mismatched_files (ustr ''doc'') =
     Some (\<lparr>faiss_d = 1, faiss_vectors = [[0], [1]]\<rparr>, [ustr ''a''], [[(''index'', VInt 0)]]) \<and>
   load_index mismatched_files (ustr ''doc'') (rag_init [] []) =
     (Inr (),
      (rag_init [] [])\<lparr>self_index := Some \<lparr>faiss_d = 1, faiss_vectors = [[0], [1]]\<rparr>,
                        self_chunks := [ustr ''a''],
                        self_metadata := [[(''index'', VInt 0)]]\<rparr>)"
  using load_index_result [of mismatched_files "ustr ''none''" "rag_init [] []"]
    load_index_result [of mismatched_files "ustr ''doc''" "rag_init [] []"]
  by (simp add: artifacts_def faiss_read_index_def pickle_load_def data_chunks_def
      data_metadata_def mismatched_files_def ustr_def)

text \<open>
  The exception is the one of the reader that fails, whatever its class: \<open>RuntimeError\<close>
  for the index, \<open>FileNotFoundError\<close> for a missing side-table, \<open>EOFError\<close> for an empty one,
  \<open>TypeError\<close> for a pickled list. After the index is read, \<open>self.index\<close> stays assigned.
\<close>

lemma load_index_errors:
  "load_index mismatched_files (ustr ''none'') st = (Inl RuntimeError, st)"
  "load_index (mismatched_files(ustr ''doc.pkl'' := None)) (ustr ''doc'') st =
     (Inl FileNotFoundError, st\<lparr>self_index := Some \<lparr>faiss_d = 1, faiss_vectors = [[0], [1]]\<rparr>\<rparr>)"
  "load_index (mismatched_files(ustr ''doc.pkl'' \<mapsto> empty_file)) (ustr ''doc'') st =
     (Inl EOFError, st\<lparr>self_index := Some \<lparr>faiss_d = 1, faiss_vectors = [[0], [1]]\<rparr>\<rparr>)"
  "load_index (mismatched_files(ustr ''doc.pkl'' \<mapsto> pickled_list_file)) (ustr ''doc'') st =
     (Inl TypeError, st\<lparr>self_index := Some \<lparr>faiss_d = 1, faiss_vectors = [[0], [1]]\<rparr>\<rparr>)"
  by (simp_all add: load_index_def faiss_read_index_def pickle_load_def data_chunks_def
      data_metadata_def mismatched_files_def empty_file_def pickled_list_file_def ustr_def)

text \<open>
  C2 as stated (a pair whose vector count differs from the length of the side-table is
  never loaded) fails: an index file of two vectors beside a side-table of one chunk loads
  without an error.
\<close>

theorem load_index_mismatch_counterexample:
  "fst (load_index mismatched_files (ustr ''doc'') (rag_init [] [])) = Inr () \<and>
   self_index (snd (load_index mismatched_files (ustr ''doc'') (rag_init [] []))) =
     Some \<lparr>faiss_d = 1, faiss_vectors = [[0], [1]]\<rparr> \<and>
   self_chunks (snd (load_index mismatched_files (ustr ''doc'') (rag_init [] []))) =
     [ustr ''a'']"
  by (simp add: load_index_def faiss_read_index_def pickle_load_def data_chunks_def
      data_metadata_def mismatched_files_def ustr_def)

subsection \<open>An index over no chunks\<close>

lemma create_embeddings_empty:
  "create_embeddings be [] st = (Inr \<lparr>nd_shape = [0], nd_rows = []\<rparr>, st)"
  by (simp add: create_embeddings_def batches_Nil np_array_def)

text \<open>
  C3, as the code has it: \<open>create_index\<close> on the empty chunk list raises \<open>IndexError\<close> (from
  \<open>embeddings.shape[1]\<close> on an array of shape \<open>(0,)\<close>) without any request to the embedding
  backend and leaves \<open>self.index\<close> as it was; \<open>self.chunks\<close> has already been set to the empty
  list and \<open>self.metadata\<close> to the metadata passed (the empty list when none was).
\<close>

theorem create_index_empty:
  "fst (create_index be [] md st) = Inl IndexError \<and>
   embedding_calls (snd (create_index be [] md st)) = embedding_calls st \<and>
   self_index (snd (create_index be [] md st)) = self_index st \<and>
   self_chunks (snd (create_index be [] md st)) = [] \<and>
   self_metadata (snd (create_index be [] md st)) = (case md of None \<Rightarrow> [] | Some m \<Rightarrow> m)"
  by (simp add: create_index_def create_embeddings_empty default_metadata_def
      split: option.splits)

text \<open>
  C3 as stated (\<open>EmptyDocumentError\<close> is raised and no state is established) fails: on a
  system that holds an index over one chunk the exception is an \<open>IndexError\<close>, and the call
  has emptied \<open>self.chunks\<close> before raising.
\<close>

theorem create_index_empty_counterexample:
  "fst (create_index (constant_backend []) [] None one_chunk_system) = Inl IndexError \<and>
   class_name IndexError \<noteq> ''EmptyDocumentError'' \<and>
   self_chunks (snd (create_index (constant_backend []) [] None one_chunk_system)) = [] \<and>
   self_chunks one_chunk_system = [ustr ''a'']"
  by (simp add: create_index_def create_embeddings_empty default_metadata_def
      one_chunk_system_eq)

subsection \<open>Quiz and flashcard generation\<close>

lemma sample_context_one_chunk:
  "sample_context (\<lambda>n. [0]) one_chunk_system = Inr (ustr ''a'')"
  by (simp add: sample_context_def one_chunk_system_eq np_random_choice_def py_index_def)

text \<open>Once the context is drawn, the value is the answer of the backend.\<close>

lemma generate_quiz_questions_value:
  "sample_context permutation st = Inr ctx \<Longrightarrow>
   fst (generate_quiz_questions be permutation n difficulty topic st) =
     chat_completions_create be (quiz_request (deployment_name st) (quiz_prompt n difficulty topic ctx))"
  by (simp add: generate_quiz_questions_def chat_completion_def)

lemma generate_flashcards_value:
  "sample_context permutation st = Inr ctx \<Longrightarrow>
   fst (generate_flashcards be permutation n topic st) =
     chat_completions_create be (flashcard_request (deployment_name st) (flashcard_prompt n topic ctx))"
  by (simp add: generate_flashcards_def chat_completion_def)

text \<open>
  C4 (\<open>generate_quiz_questions\<close> and \<open>generate_flashcards\<close> return a list of parsed records
  and raise \<open>MalformedGenerationOutputError\<close> on an answer that cannot be parsed). Whatever
  string the backend answers, parseable or not, both functions return that string itself
  and raise nothing; the source annotates them \<open>List[Dict]\<close>.
\<close>

theorem generation_returns_raw_text:
  "fst (generate_quiz_questions (constant_backend answer) (\<lambda>n. [0]) num_questions difficulty
          topic one_chunk_system) = Inr answer \<and>
   fst (generate_flashcards (constant_backend answer) (\<lambda>n. [0]) num_cards topic
          one_chunk_system) = Inr answer"
  by (simp add: generate_quiz_questions_def generate_flashcards_def sample_context_one_chunk
      chat_completion_def constant_backend_def)

lemma sample_context_init: "sample_context permutation (rag_init dn em) = Inr []"
  by (simp add: sample_context_def rag_init_def np_random_choice_def)

text \<open>
  C10: on a system as \<open>__init__\<close> leaves it (no index, no chunks), \<open>search\<close> raises
  \<open>ValueError\<close>, while \<open>generate_quiz_questions\<close> and \<open>generate_flashcards\<close> check nothing:
  they draw zero chunks, send one chat request whose prompt has the empty string as
  content block, and return what the backend answers.
\<close>

theorem generation_without_index:
  "fst (search be query k (rag_init dn em)) = Inl ValueError \<and>
   sample_context permutation (rag_init dn em) = Inr [] \<and>
   generate_quiz_questions be permutation num_questions difficulty topic (rag_init dn em) =
     (chat_completions_create be
        (quiz_request dn (quiz_prompt num_questions difficulty topic [])),
      (rag_init dn em)
        \<lparr>chat_calls := [quiz_request dn (quiz_prompt num_questions difficulty topic [])]\<rparr>) \<and>
   generate_flashcards be permutation num_cards topic (rag_init dn em) =
     (chat_completions_create be (flashcard_request dn (flashcard_prompt num_cards topic [])),
      (rag_init dn em)
        \<lparr>chat_calls := [flashcard_request dn (flashcard_prompt num_cards topic [])]\<rparr>)"
  by (simp add: generate_quiz_questions_def generate_flashcards_def sample_context_init
      chat_completion_def search_def) (simp add: rag_init_def)

end
